theory Spec2Isabelle
  imports
    Complex_Main
    "HOL-Library.Multiset"
    "HOL-Library.Char_ord"
    "HOL-Library.List_Lexorder"
    "HOL-Library.Product_Lexorder"
begin

section \<open>Cell values and calendar dates\<close>

text \<open>
  The script \<^verbatim>\<open>dashboard_utility.py\<close> reads a spreadsheet into a pandas DataFrame and
  works on its columns. A cell of such a column is one of the scalars below.

  \<^item> \<open>Num v\<close>: a finite number (an int64 or float64 cell), held as an exact rational.
    Where the code adds up a column of whole numbers, the wrap-around of int64 is
    written out; the rounding of float64 arithmetic is outside this development.
  \<^item> \<open>NaN\<close>: the float "not a number", which pandas uses for an empty cell.
  \<^item> \<open>Str s\<close>: a text cell.
  \<^item> \<open>Ts t\<close>: a point in time without a time zone (a naive \<^verbatim>\<open>Timestamp\<close> or
    \<^verbatim>\<open>datetime\<close>), \<open>t\<close> being the exact number of days since 1970-01-01 00:00; the
    fractional part is the time of day.
  \<^item> \<open>TsTz t off\<close>: a point in time with a time zone: \<open>t\<close> days since 1970-01-01 00:00
    UTC, at the UTC offset of \<open>off\<close> days. No cell of a spreadsheet is of this kind; the
    cast of line 57 makes one from a text that carries a UTC offset.
  \<^item> \<open>NaT\<close>: the missing timestamp.
  \<^item> \<open>NoneV\<close>: Python's \<^verbatim>\<open>None\<close>.

  Boolean cells and time-of-day cells of a spreadsheet are not covered.
\<close>

datatype cell = Num rat | NaN | Str string | Ts rat | TsTz rat rat | NaT | NoneV

datatype error = TypeError | KeyError | ValueError | NonNumeric

text \<open>
  The proleptic Gregorian calendar that \<^verbatim>\<open>pd.to_datetime('1899-12-30')\<close> and the
  monthly bins of \<^verbatim>\<open>resample('M')\<close> rest on: the day number of a civil date, counted
  from 1970-01-01, and back. Years begin in March inside the computation, so that the
  leap day is the last day of a year; 400 years have 146097 days.
\<close>

definition days_from_civil :: "int \<Rightarrow> int \<Rightarrow> int \<Rightarrow> int" where
  "days_from_civil y m d =
     (let y' = (if m \<le> 2 then y - 1 else y);
          era = y' div 400;
          yoe = y' - era * 400;
          mp = (if m > 2 then m - 3 else m + 9);
          doy = (153 * mp + 2) div 5 + d - 1;
          doe = yoe * 365 + yoe div 4 - yoe div 100 + doy
      in era * 146097 + doe - 719468)"

definition civil_from_days :: "int \<Rightarrow> int \<times> int \<times> int" where
  "civil_from_days z =
     (let z' = z + 719468;
          era = z' div 146097;
          doe = z' - era * 146097;
          yoe = (doe - doe div 1460 + doe div 36524 - doe div 146096) div 365;
          doy = doe - (365 * yoe + yoe div 4 - yoe div 100);
          mp = (5 * doy + 2) div 153;
          d = doy - (153 * mp + 2) div 5 + 1;
          m = (if mp < 10 then mp + 3 else mp - 9);
          y = yoe + era * 400
      in (if m \<le> 2 then y + 1 else y, m, d))"

text \<open>The calendar date (year, month, day) a timestamp falls on.\<close>

definition date_of :: "rat \<Rightarrow> int \<times> int \<times> int" where
  "date_of t = civil_from_days \<lfloor>t\<rfloor>"

text \<open>\<^verbatim>\<open>pd.to_datetime('1899-12-30')\<close>, as days since 1970-01-01.\<close>

definition excel_epoch :: rat where
  "excel_epoch = of_int (days_from_civil 1899 12 30)"

section \<open>excel\_serial\_to\_date (lines 28-40)\<close>

text \<open>\<^verbatim>\<open>pd.isna\<close> on a scalar: true of NaN, None and NaT.\<close>

fun isna :: "cell \<Rightarrow> bool" where
  "isna NaN = True"
| "isna NaT = True"
| "isna NoneV = True"
| "isna (Num v) = False"
| "isna (Str s) = False"
| "isna (Ts t) = False"
| "isna (TsTz t off) = False"

text \<open>
  Python's \<^verbatim>\<open>x > k\<close> and \<^verbatim>\<open>x < k\<close> for an integer literal \<open>k\<close>: defined on numbers, a
  TypeError on text and on timestamps. (A NaN operand compares false; the function below
  never compares one, since \<^verbatim>\<open>pd.isna\<close> is tested first.)
\<close>

fun py_gt :: "cell \<Rightarrow> rat \<Rightarrow> error + bool" where
  "py_gt (Num v) k = Inr (v > k)"
| "py_gt NaN k = Inr False"
| "py_gt c k = Inl TypeError"

fun py_lt :: "cell \<Rightarrow> rat \<Rightarrow> error + bool" where
  "py_lt (Num v) k = Inr (v < k)"
| "py_lt NaN k = Inr False"
| "py_lt c k = Inl TypeError"

text \<open>
  \<^verbatim>\<open>pd.to_datetime('1899-12-30') + pd.to_timedelta(serial_number, unit='D')\<close>: the
  epoch moved by that many days. Only a number makes a timedelta here.
\<close>

fun epoch_plus_days :: "cell \<Rightarrow> error + cell" where
  "epoch_plus_days (Num v) = Inr (Ts (excel_epoch + v))"
| "epoch_plus_days c = Inl TypeError"

text \<open>
  The body of the \<^verbatim>\<open>try\<close> block (lines 35-38); \<^verbatim>\<open>and\<close> evaluates its right operand
  only when the left one is true.
\<close>

definition serial_try :: "cell \<Rightarrow> error + cell" where
  "serial_try serial_number =
     (case py_gt serial_number 1000 of
        Inl e \<Rightarrow> Inl e
      | Inr False \<Rightarrow> Inr serial_number
      | Inr True \<Rightarrow>
          (case py_lt serial_number 90000 of
             Inl e \<Rightarrow> Inl e
           | Inr False \<Rightarrow> Inr serial_number
           | Inr True \<Rightarrow> epoch_plus_days serial_number))"

text \<open>The whole function: the missing-value test, then the \<^verbatim>\<open>try\<close> with its handler.\<close>

definition excel_serial_to_date :: "cell \<Rightarrow> cell" where
  "excel_serial_to_date serial_number =
     (if isna serial_number then NoneV
      else (case serial_try serial_number of
              Inl e \<Rightarrow> serial_number
            | Inr r \<Rightarrow> r))"

section \<open>DataFrames\<close>

text \<open>
  A Series is the list of its cells, in row order; a DataFrame is the list of its columns
  in column order, each a name with its Series. \<^verbatim>\<open>pd.read_excel\<close> gives distinct column
  names and columns of one length.
\<close>

type_synonym series = "cell list"
type_synonym dataframe = "(string \<times> series) list"

definition DATE_COLUMN :: string where
  "DATE_COLUMN = ''Order_Date''"

definition SALES_COLUMN :: string where
  "SALES_COLUMN = ''Sales_Amount''"

definition CATEGORY_COLUMN :: string where
  "CATEGORY_COLUMN = ''Product_Category''"

text \<open>\<^verbatim>\<open>c in df.columns\<close>\<close>

definition has_column :: "dataframe \<Rightarrow> string \<Rightarrow> bool" where
  "has_column df c = (c \<in> set (map fst df))"

text \<open>\<^verbatim>\<open>df[c]\<close>, a KeyError when there is no such column.\<close>

definition getitem :: "dataframe \<Rightarrow> string \<Rightarrow> error + series" where
  "getitem df c = (case map_of df c of None \<Rightarrow> Inl KeyError | Some s \<Rightarrow> Inr s)"

text \<open>
  \<^verbatim>\<open>df[c] = s\<close>: an existing column is overwritten where it stands, a new one is
  appended as the last column.
\<close>

fun setitem :: "dataframe \<Rightarrow> string \<Rightarrow> series \<Rightarrow> dataframe" where
  "setitem [] c s = [(c, s)]"
| "setitem ((k, old) # df) c s =
     (if k = c then (c, s) # df else (k, old) # setitem df c s)"

text \<open>\<^verbatim>\<open>df.drop(columns=[c], inplace=True)\<close>, a KeyError when there is no such column.\<close>

definition drop_column :: "dataframe \<Rightarrow> string \<Rightarrow> error + dataframe" where
  "drop_column df c =
     (if has_column df c then Inr (filter (\<lambda>kv. fst kv \<noteq> c) df) else Inl KeyError)"

text \<open>\<^verbatim>\<open>df.rename(columns={a: b}, inplace=True)\<close>; a name that is absent is ignored.\<close>

definition rename :: "dataframe \<Rightarrow> string \<Rightarrow> string \<Rightarrow> dataframe" where
  "rename df a b = map (\<lambda>kv. (if fst kv = a then b else fst kv, snd kv)) df"

text \<open>The rows of a column that a boolean mask keeps, in their order.\<close>

definition filter_mask :: "bool list \<Rightarrow> 'a list \<Rightarrow> 'a list" where
  "filter_mask keep xs = map snd (filter fst (zip keep xs))"

text \<open>
  \<^verbatim>\<open>df.dropna(subset=[c], inplace=True)\<close>: the rows whose cell in column \<open>c\<close> is missing
  are removed from every column.
\<close>

definition dropna :: "dataframe \<Rightarrow> string \<Rightarrow> error + dataframe" where
  "dropna df c =
     (case map_of df c of
        None \<Rightarrow> Inl KeyError
      | Some s \<Rightarrow> Inr (map (\<lambda>kv. (fst kv, filter_mask (map (\<lambda>x. \<not> isna x) s) (snd kv))) df))"

text \<open>\<^verbatim>\<open>df.head()\<close>: the first five rows.\<close>

definition head :: "dataframe \<Rightarrow> dataframe" where
  "head df = map (\<lambda>kv. (fst kv, take 5 (snd kv))) df"

text \<open>\<^verbatim>\<open>len(df)\<close>: the number of rows.\<close>

definition nrows :: "dataframe \<Rightarrow> nat" where
  "nrows df = (case df of [] \<Rightarrow> 0 | kv # rest \<Rightarrow> length (snd kv))"

section \<open>Date normalisation (lines 46-58)\<close>

text \<open>
  A pandas timestamp is a signed 64-bit count of nanoseconds since 1970-01-01, the least
  value being reserved for NaT: a point in time is representable when it lies less than
  \<open>2 ^ 63\<close> nanoseconds from 1970-01-01.
\<close>

definition ns_per_day :: rat where
  "ns_per_day = 86400000000000"

definition in_bounds :: "rat \<Rightarrow> bool" where
  "in_bounds t = (\<bar>t * ns_per_day\<bar> < 2 ^ 63)"

definition timestamp_or_nat :: "rat \<Rightarrow> cell" where
  "timestamp_or_nat t = (if in_bounds t then Ts t else NaT)"

text \<open>
  \<^verbatim>\<open>pd.to_datetime(s, errors='coerce')\<close>. Every cell is read as a point in time, naive
  or with a time zone, or as nothing. A timestamp is read as itself and a missing value as
  nothing. How numbers and texts are read is a parameter: given the Series under
  conversion and one of its cells, the reader returns the reading. (pandas reads a
  number as nanoseconds since 1970-01-01 and a text by a date format, which it may fix
  from the other cells of the Series; a text with a UTC offset gives a point in time
  with a time zone.)
\<close>

datatype reading = Unreadable | Naive rat | Aware rat rat

type_synonym date_parser = "series \<Rightarrow> cell \<Rightarrow> reading"

fun read_cell :: "(cell \<Rightarrow> reading) \<Rightarrow> cell \<Rightarrow> reading" where
  "read_cell p (Ts t) = Naive t"
| "read_cell p (TsTz t off) = Aware t off"
| "read_cell p (Num v) = p (Num v)"
| "read_cell p (Str s) = p (Str s)"
| "read_cell p NaN = Unreadable"
| "read_cell p NaT = Unreadable"
| "read_cell p NoneV = Unreadable"

fun is_aware :: "reading \<Rightarrow> bool" where
  "is_aware (Aware t off) = True"
| "is_aware r = False"

fun is_naive :: "reading \<Rightarrow> bool" where
  "is_naive (Naive t) = True"
| "is_naive r = False"

text \<open>With \<^verbatim>\<open>errors='coerce'\<close>, what cannot be read or represented becomes NaT.\<close>

fun coerce :: "reading \<Rightarrow> cell" where
  "coerce Unreadable = NaT"
| "coerce (Naive t) = timestamp_or_nat t"
| "coerce (Aware t off) = (if in_bounds t then TsTz t off else NaT)"

text \<open>
  pandas takes the date format from the first cell that is present, when that cell is a
  text it can read; then every cell is matched against the format.
\<close>

definition format_from_text :: "(cell \<Rightarrow> reading) \<Rightarrow> series \<Rightarrow> bool" where
  "format_from_text p s =
     (case filter (\<lambda>c. \<not> isna c) s of
        Str x # rest \<Rightarrow> p (Str x) \<noteq> Unreadable
      | _ \<Rightarrow> False)"

text \<open>
  The cast of a column. \<^verbatim>\<open>errors='coerce'\<close> covers the cells one by one, not the check
  that comes after them: when the cells are converted without a format from a first
  text, and both a naive point in time and one with a time zone are among them, pandas
  raises ValueError ("Cannot mix tz-aware with tz-naive values"). With a format from
  the first text the cast returns the column, which may then hold both kinds.
\<close>

definition to_datetime_coerce :: "date_parser \<Rightarrow> series \<Rightarrow> error + series" where
  "to_datetime_coerce p s =
     (let rs = map (read_cell (p s)) s in
      if list_ex is_aware rs \<and> list_ex is_naive rs \<and> \<not> format_from_text (p s) s
      then Inl ValueError
      else Inr (map coerce rs))"

text \<open>
  Lines 46-58. With no date column the frame is left as it is. Otherwise the converted
  cells go to the column \<^verbatim>\<open>Corrected_Date\<close>, the date column is dropped,
  \<^verbatim>\<open>Corrected_Date\<close> takes its name, the column is cast to timestamps and the rows where
  the cast gave NaT are removed.
\<close>

definition normalize_dates :: "date_parser \<Rightarrow> dataframe \<Rightarrow> error + dataframe" where
  "normalize_dates p df =
     (if has_column df DATE_COLUMN then
        (case getitem df DATE_COLUMN of
           Inl e \<Rightarrow> Inl e
         | Inr s \<Rightarrow>
             (case drop_column (setitem df ''Corrected_Date'' (map excel_serial_to_date s))
                     DATE_COLUMN of
                Inl e \<Rightarrow> Inl e
              | Inr df2 \<Rightarrow>
                  (let df3 = rename df2 ''Corrected_Date'' DATE_COLUMN in
                   case getitem df3 DATE_COLUMN of
                     Inl e \<Rightarrow> Inl e
                   | Inr s3 \<Rightarrow>
                       (case to_datetime_coerce p s3 of
                          Inl e \<Rightarrow> Inl e
                        | Inr d \<Rightarrow> dropna (setitem df3 DATE_COLUMN d) DATE_COLUMN))))
      else Inr df)"

section \<open>Aggregates (lines 68-94)\<close>

text \<open>
  The number in a cell of the amount column: a missing cell counts for nothing
  (\<^verbatim>\<open>skipna\<close>). On a column holding text or dates the reductions of lines 69-70 raise, or
  their result cannot take the float format of lines 74-76: either way an exception
  leaves the block, recorded here as \<open>NonNumeric\<close>.
\<close>

fun numeric_value :: "cell \<Rightarrow> error + rat option" where
  "numeric_value (Num v) = Inr (Some v)"
| "numeric_value NaN = Inr None"
| "numeric_value NoneV = Inr None"
| "numeric_value (Str s) = Inl NonNumeric"
| "numeric_value (Ts t) = Inl NonNumeric"
| "numeric_value (TsTz t off) = Inl NonNumeric"
| "numeric_value NaT = Inl NonNumeric"

fun numeric_values :: "series \<Rightarrow> error + rat option list" where
  "numeric_values [] = Inr []"
| "numeric_values (c # cs) =
     (case numeric_value c of
        Inl e \<Rightarrow> Inl e
      | Inr v \<Rightarrow> (case numeric_values cs of Inl e \<Rightarrow> Inl e | Inr vs \<Rightarrow> Inr (v # vs)))"

fun value_or_zero :: "rat option \<Rightarrow> rat" where
  "value_or_zero None = 0"
| "value_or_zero (Some v) = v"

text \<open>The exact sum of the values that are present.\<close>

definition sum_skipna :: "rat option list \<Rightarrow> rat" where
  "sum_skipna vs = sum_list (map value_or_zero vs)"

text \<open>
  A column of whole numbers in the range of int64, none missing, has the dtype int64,
  and pandas adds it up in int64: the sum wraps around modulo \<open>2 ^ 64\<close>. Any other
  numeric column is float64; its sum is taken exactly here.
\<close>

definition whole :: "rat \<Rightarrow> bool" where
  "whole x = (of_int \<lfloor>x\<rfloor> = x)"

fun int64_value :: "rat option \<Rightarrow> bool" where
  "int64_value None = False"
| "int64_value (Some x) = (whole x \<and> - (2 ^ 63) \<le> x \<and> x < 2 ^ 63)"

definition int64_column :: "rat option list \<Rightarrow> bool" where
  "int64_column vs = (vs \<noteq> [] \<and> list_all int64_value vs)"

definition wrap64 :: "rat \<Rightarrow> rat" where
  "wrap64 x = of_int ((\<lfloor>x\<rfloor> + 2 ^ 63) mod 2 ^ 64 - 2 ^ 63)"

definition add_up :: "bool \<Rightarrow> rat option list \<Rightarrow> rat" where
  "add_up int64 vs = (if int64 then wrap64 (sum_skipna vs) else sum_skipna vs)"

text \<open>\<^verbatim>\<open>Series.sum()\<close>: the sum of the cells that are present, 0 when there is none.\<close>

definition series_sum :: "series \<Rightarrow> error + rat" where
  "series_sum s =
     (case numeric_values s of Inl e \<Rightarrow> Inl e | Inr vs \<Rightarrow> Inr (add_up (int64_column vs) vs))"

text \<open>
  \<^verbatim>\<open>Series.mean()\<close>: the sum of the cells that are present over their number, taken in
  float64; NaN, written \<open>None\<close>, when there is none.
\<close>

definition mean_skipna :: "rat option list \<Rightarrow> rat option" where
  "mean_skipna vs =
     (let present = filter (\<lambda>v. v \<noteq> None) vs in
      if present = [] then None else Some (sum_skipna present / of_nat (length present)))"

definition series_mean :: "series \<Rightarrow> error + rat option" where
  "series_mean s = (case numeric_values s of Inl e \<Rightarrow> Inl e | Inr vs \<Rightarrow> Inr (mean_skipna vs))"

definition total_sales :: "dataframe \<Rightarrow> error + rat" where
  "total_sales df = (case getitem df SALES_COLUMN of Inl e \<Rightarrow> Inl e | Inr s \<Rightarrow> series_sum s)"

definition avg_sales :: "dataframe \<Rightarrow> error + rat option" where
  "avg_sales df = (case getitem df SALES_COLUMN of Inl e \<Rightarrow> Inl e | Inr s \<Rightarrow> series_mean s)"

subsection \<open>Monthly trend (line 82)\<close>

text \<open>A calendar month, numbered through the years: \<open>12 * year + (month - 1)\<close>.\<close>

definition month_of :: "rat \<Rightarrow> int" where
  "month_of t = (case date_of t of (y, m, d) \<Rightarrow> 12 * y + (m - 1))"

text \<open>
  \<^verbatim>\<open>set_index(DATE_COLUMN)\<close> followed by \<^verbatim>\<open>resample\<close> needs an index of one datetime
  dtype: representable timestamps, all naive, or all of one UTC offset, which count by
  their local time. On any other column, one that mixes the two kinds among them, it
  raises TypeError.
\<close>

fun naive_time :: "cell \<Rightarrow> rat option" where
  "naive_time (Ts t) = Some t"
| "naive_time c = None"

fun aware_time :: "cell \<Rightarrow> (rat \<times> rat) option" where
  "aware_time (TsTz t off) = Some (t, off)"
| "aware_time c = None"

definition timestamps :: "series \<Rightarrow> error + rat list" where
  "timestamps d =
     (case those (map naive_time d) of
        Some ts \<Rightarrow> (if list_all in_bounds ts then Inr ts else Inl TypeError)
      | None \<Rightarrow>
          (case those (map aware_time d) of
             None \<Rightarrow> Inl TypeError
           | Some [] \<Rightarrow> Inr []
           | Some (z # zs) \<Rightarrow>
               (if list_all (\<lambda>y. snd y = snd z \<and> in_bounds (fst y)) (z # zs)
                then Inr (map (\<lambda>y. fst y + snd y) (z # zs))
                else Inl TypeError)))"

text \<open>
  \<^verbatim>\<open>resample('M').sum().reset_index()\<close>: one bin for every calendar month from the
  earliest row's to the latest row's, in ascending order, each with the sum of the
  amounts of its rows (0 for a month without rows), added up in the dtype of the amount
  column. pandas labels a bin with the last day of its month; here the label is the
  month itself.
\<close>

definition month_total :: "bool \<Rightarrow> (rat \<times> rat option) list \<Rightarrow> int \<Rightarrow> rat" where
  "month_total int64 rows m =
     add_up int64 (map snd (filter (\<lambda>r. month_of (fst r) = m) rows))"

definition resample_month_sum :: "bool \<Rightarrow> (rat \<times> rat option) list \<Rightarrow> (int \<times> rat) list" where
  "resample_month_sum int64 rows =
     (if rows = [] then []
      else map (\<lambda>m. (m, month_total int64 rows m))
             [Min (set (map (\<lambda>r. month_of (fst r)) rows)) ..
              Max (set (map (\<lambda>r. month_of (fst r)) rows))])"

definition sales_trend :: "dataframe \<Rightarrow> error + (int \<times> rat) list" where
  "sales_trend df =
     (case getitem df DATE_COLUMN of
        Inl e \<Rightarrow> Inl e
      | Inr d \<Rightarrow>
          (case getitem df SALES_COLUMN of
             Inl e \<Rightarrow> Inl e
           | Inr a \<Rightarrow>
               (case timestamps d of
                  Inl e \<Rightarrow> Inl e
                | Inr ts \<Rightarrow>
                    (case numeric_values a of
                       Inl e \<Rightarrow> Inl e
                     | Inr vs \<Rightarrow> Inr (resample_month_sum (int64_column vs) (zip ts vs))))))"

subsection \<open>Totals by category (line 94)\<close>

text \<open>
  \<^verbatim>\<open>groupby\<close> leaves out the rows whose key is missing and lists the groups by ascending
  key: numbers by value, dates by time, texts by code points, and numbers or dates
  before texts. Numbers and dates among the keys of one column cannot be compared:
  pandas raises TypeError.
\<close>

fun is_number :: "cell \<Rightarrow> bool" where
  "is_number (Num v) = True"
| "is_number c = False"

fun is_date :: "cell \<Rightarrow> bool" where
  "is_date (Ts t) = True"
| "is_date (TsTz t off) = True"
| "is_date c = False"

fun cell_key :: "cell \<Rightarrow> nat \<times> rat \<times> string" where
  "cell_key (Num v) = (0, v, [])"
| "cell_key (Ts t) = (0, t, [])"
| "cell_key (TsTz t off) = (0, t, [])"
| "cell_key (Str s) = (1, 0, s)"
| "cell_key c = (2, 0, [])"

definition group_keys :: "series \<Rightarrow> error + cell list" where
  "group_keys c =
     (let ks = remdups (filter (\<lambda>x. \<not> isna x) c) in
      if list_ex is_number ks \<and> list_ex is_date ks then Inl TypeError
      else Inr (sort_key cell_key ks))"

definition group_total :: "bool \<Rightarrow> (cell \<times> rat option) list \<Rightarrow> cell \<Rightarrow> rat" where
  "group_total int64 rows k = add_up int64 (map snd (filter (\<lambda>r. fst r = k) rows))"

text \<open>\<^verbatim>\<open>df.groupby(CATEGORY_COLUMN)[SALES_COLUMN].sum().reset_index()\<close>\<close>

definition groupby_sum :: "dataframe \<Rightarrow> error + (cell \<times> rat) list" where
  "groupby_sum df =
     (case getitem df CATEGORY_COLUMN of
        Inl e \<Rightarrow> Inl e
      | Inr c \<Rightarrow>
          (case getitem df SALES_COLUMN of
             Inl e \<Rightarrow> Inl e
           | Inr a \<Rightarrow>
               (case numeric_values a of
                  Inl e \<Rightarrow> Inl e
                | Inr vs \<Rightarrow>
                    (case group_keys c of
                       Inl e \<Rightarrow> Inl e
                     | Inr ks \<Rightarrow>
                         Inr (map (\<lambda>k. (k, group_total (int64_column vs) (zip c vs) k)) ks)))))"

text \<open>
  \<^verbatim>\<open>sort_values(by=SALES_COLUMN, ascending=False)\<close> is called without \<^verbatim>\<open>kind\<close>, so with
  pandas' default \<^verbatim>\<open>'quicksort'\<close>, which pandas documents as not stable: the order it
  gives to rows of equal total is a matter of the numpy build. The sorting routine is a
  parameter; what the call fixes is that the rows come back rearranged by descending
  total.
\<close>

type_synonym sorter = "(cell \<times> rat) list \<Rightarrow> (cell \<times> rat) list"

definition descending :: "(cell \<times> rat) list \<Rightarrow> bool" where
  "descending xs = sorted_wrt (\<lambda>a b. snd b \<le> snd a) xs"

definition sorts_descending :: "sorter \<Rightarrow> bool" where
  "sorts_descending srt = (\<forall>xs. mset (srt xs) = mset xs \<and> descending (srt xs))"

definition category_sales :: "sorter \<Rightarrow> dataframe \<Rightarrow> error + (cell \<times> rat) list" where
  "category_sales srt df =
     (case groupby_sum df of Inl e \<Rightarrow> Inl e | Inr g \<Rightarrow> Inr (srt g))"

text \<open>A routine that sorts by descending total and keeps rows of equal total in their order.\<close>

definition stable_sort_desc :: sorter where
  "stable_sort_desc xs = sort_key (\<lambda>r. - snd r) xs"

section \<open>The script (lines 13-120)\<close>

text \<open>What the page shows, in the order of the calls to \<^verbatim>\<open>st\<close>.\<close>

datatype ui_event =
    Success
  | Subheader
  | DataframeView dataframe
  | Info
  | Header
  | MetricTotal rat
  | MetricAverage "rat option"
  | MetricCount nat
  | LineChart "(int \<times> rat) list"
  | BarChart "(cell \<times> rat) list"
  | PieChart "(cell \<times> rat) list"
  | ColumnNotFound string
  | ProcessingError error

text \<open>Lines 93-114: the bar chart and the pie chart, both from \<open>category_sales\<close>.\<close>

definition category_charts :: "sorter \<Rightarrow> dataframe \<Rightarrow> ui_event list" where
  "category_charts srt df =
     (if has_column df CATEGORY_COLUMN then
        (case category_sales srt df of
           Inl e \<Rightarrow> [ProcessingError e]
         | Inr cs \<Rightarrow> [BarChart cs, PieChart cs])
      else [])"

text \<open>Lines 81-90, then the category charts unless an exception has ended the run.\<close>

definition charts :: "sorter \<Rightarrow> dataframe \<Rightarrow> ui_event list" where
  "charts srt df =
     (if has_column df DATE_COLUMN then
        (case sales_trend df of
           Inl e \<Rightarrow> [ProcessingError e]
         | Inr tr \<Rightarrow> LineChart tr # category_charts srt df)
      else category_charts srt df)"

text \<open>Lines 68-117.\<close>

definition kpis :: "sorter \<Rightarrow> dataframe \<Rightarrow> ui_event list" where
  "kpis srt df =
     (if has_column df SALES_COLUMN then
        (case total_sales df of
           Inl e \<Rightarrow> [ProcessingError e]
         | Inr tot \<Rightarrow>
             (case avg_sales df of
                Inl e \<Rightarrow> [ProcessingError e]
              | Inr avg \<Rightarrow>
                  [MetricTotal tot, MetricAverage avg, MetricCount (nrows df)]
                  @ charts srt df))
      else [ColumnNotFound SALES_COLUMN])"

text \<open>
  The run on an uploaded file that \<^verbatim>\<open>pd.read_excel\<close> has read into \<open>df\<close>. An exception
  anywhere ends the run with the message of line 120, after what has been shown.
\<close>

definition run :: "date_parser \<Rightarrow> sorter \<Rightarrow> dataframe \<Rightarrow> ui_event list" where
  "run p srt df =
     [Success, Subheader, DataframeView (head df)]
     @ (if has_column df DATE_COLUMN then [Info] else [])
     @ (case normalize_dates p df of
          Inl e \<Rightarrow> [ProcessingError e]
        | Inr df' \<Rightarrow> Header # kpis srt df')"

section \<open>Notions used in the statements\<close>

text \<open>A cell that holds a point in time.\<close>

fun is_timestamp :: "cell \<Rightarrow> bool" where
  "is_timestamp (Ts t) = True"
| "is_timestamp (TsTz t off) = True"
| "is_timestamp c = False"

text \<open>The rows that \<^verbatim>\<open>dropna\<close> keeps, for a date column \<open>d\<close>.\<close>

definition keep_mask :: "series \<Rightarrow> bool list" where
  "keep_mask d = map (\<lambda>x. \<not> isna x) d"

text \<open>
  The frame that lines 50-58 leave, for the converted cells \<open>conv\<close> of line 50 and the
  column \<open>d\<close> that the cast of line 57 returns.
\<close>

definition normalized_frame :: "dataframe \<Rightarrow> series \<Rightarrow> series \<Rightarrow> dataframe" where
  "normalized_frame df conv d =
     map (\<lambda>kv. (fst kv, filter_mask (keep_mask d) (snd kv)))
       (setitem (rename (filter (\<lambda>kv. fst kv \<noteq> DATE_COLUMN)
           (setitem df ''Corrected_Date'' conv)) ''Corrected_Date'' DATE_COLUMN)
         DATE_COLUMN d)"

text \<open>
  Amounts that add up exactly, as int64 and as float64, in any grouping: whole numbers
  whose absolute values add up to less than \<open>2 ^ 53\<close>.
\<close>

definition exactly_summable :: "rat option list \<Rightarrow> bool" where
  "exactly_summable vs =
     (list_all (\<lambda>v. whole (value_or_zero v)) vs
      \<and> sum_list (map (\<lambda>v. \<bar>value_or_zero v\<bar>) vs) < 2 ^ 53)"


text \<open>The sum of the amounts of the rows of category \<open>k\<close>.\<close>

definition amount_in_category :: "(cell \<times> rat option) list \<Rightarrow> cell \<Rightarrow> rat" where
  "amount_in_category rows k = sum_skipna (map snd (filter (\<lambda>r. fst r = k) rows))"

text \<open>
  Two readers for the examples. Both read a number as nanoseconds since 1970-01-01. The
  first reads no text as a date; the second reads the text
  \<^verbatim>\<open>2014-05-01T00:00:00+02:00\<close> as that point in time, 22:00 UTC on 2014-04-30, at the
  offset of two hours. Then the sheets of the examples.
\<close>

fun nanoseconds_only :: date_parser where
  "nanoseconds_only col (Num v) = Naive (v / ns_per_day)"
| "nanoseconds_only col c = Unreadable"

fun offset_reader :: date_parser where
  "offset_reader col (Num v) = Naive (v / ns_per_day)"
| "offset_reader col (Str s) =
     (if s = ''2014-05-01T00:00:00+02:00'' then Aware (16190 + 11 / 12) (1 / 12)
      else Unreadable)"
| "offset_reader col c = Unreadable"

definition sheet_without_amount :: dataframe where
  "sheet_without_amount =
     [(''Order_Date'', [Num 41760, Str ''bad'']), (''Product_Category'', [Str ''A'', Str ''B''])]"

definition sheet_with_helper_name :: dataframe where
  "sheet_with_helper_name =
     [(''Order_Date'', [Num 41760]), (''Corrected_Date'', [Str ''checked''])]"

definition sales_sheet :: dataframe where
  "sales_sheet =
     [(''Order_Date'', [Num 41760, Num 41791, Str ''bad'']),
      (''Sales_Amount'', [Num 100, Num 200, Num 50]),
      (''Product_Category'', [Str ''A'', Str ''B'', Str ''A''])]"

text \<open>A serial number followed by a text with a UTC offset, with and without amounts.\<close>

definition sheet_serial_then_offset :: dataframe where
  "sheet_serial_then_offset =
     [(''Order_Date'', [Num 41760, Str ''2014-05-01T00:00:00+02:00'']),
      (''Sales_Amount'', [Num 100, Num 200])]"

definition sheet_serial_then_offset_no_amount :: dataframe where
  "sheet_serial_then_offset_no_amount =
     [(''Order_Date'', [Num 41760, Str ''2014-05-01T00:00:00+02:00'']),
      (''Product_Category'', [Str ''A'', Str ''B''])]"


definition sheet_missing_category :: dataframe where
  "sheet_missing_category =
     [(''Sales_Amount'', [Num 5, Num 7]), (''Product_Category'', [NaN, Str ''x''])]"

text \<open>Two amounts of \<open>2 ^ 62\<close>, and a category column with a number and a date.\<close>

definition sheet_large_amounts :: dataframe where
  "sheet_large_amounts =
     [(''Sales_Amount'', [Num 4611686018427387904, Num 4611686018427387904]),
      (''Product_Category'', [Str ''A'', Str ''B''])]"

definition sheet_number_and_date_keys :: dataframe where
  "sheet_number_and_date_keys =
     [(''Sales_Amount'', [Num 5, Num 7]), (''Product_Category'', [Num 1, Ts 16191])]"

text \<open>A dataset with no rows: every column is empty.\<close>

definition empty_dataset :: "dataframe \<Rightarrow> bool" where
  "empty_dataset df = list_all (\<lambda>kv. snd kv = []) df"

definition empty_sheet :: dataframe where
  "empty_sheet = [(''Order_Date'', []), (''Sales_Amount'', []), (''Product_Category'', [])]"


section \<open>Properties of excel\_serial\_to\_date\<close>

lemma excel_epoch_value: "excel_epoch = - 25569"
  by (simp add: excel_epoch_def days_from_civil_def)

lemma civil_from_days_epoch: "civil_from_days (- 25569) = (1899, 12, 30)"
  unfolding civil_from_days_def Let_def by simp

lemma civil_of_excel_epoch: "date_of excel_epoch = (1899, 12, 30)"
  by (simp add: excel_epoch_value date_of_def civil_from_days_epoch)

lemma days_from_civil_epoch: "days_from_civil 1899 12 30 = - 25569"
  by (simp add: days_from_civil_def)

lemma civil_from_days_16191: "civil_from_days 16191 = (2014, 5, 1)"
  unfolding civil_from_days_def Let_def by simp

text \<open>
  Claim C1. For every number \<open>v\<close> with \<open>1000 < v < 90000\<close>, \<open>excel_serial_to_date\<close>
  returns the timestamp \<open>v\<close> days after 1899-12-30, the day whose civil date is
  (1899, 12, 30).
\<close>

theorem excel_serial_in_range:
  assumes "1000 < v" and "v < 90000"
  shows "excel_serial_to_date (Num v) = Ts (of_int (days_from_civil 1899 12 30) + v)
    \<and> civil_from_days (days_from_civil 1899 12 30) = (1899, 12, 30)"
  using assms
  by (simp add: excel_serial_to_date_def serial_try_def excel_epoch_def
      days_from_civil_epoch civil_from_days_epoch)

theorem excel_serial_in_range_witness:
  "(1000::rat) < 41760 \<and> (41760::rat) < 90000
   \<and> excel_serial_to_date (Num 41760) = Ts 16191
   \<and> date_of 16191 = (2014, 5, 1)"
  using excel_serial_in_range [of 41760]
  by (simp add: days_from_civil_epoch date_of_def civil_from_days_16191)

text \<open>
  Claim C6. For every number \<open>v\<close> with \<open>v \<le> 1000\<close> or \<open>v \<ge> 90000\<close>,
  \<open>excel_serial_to_date\<close> returns the value unchanged.
\<close>

theorem excel_serial_out_of_range:
  assumes "v \<le> 1000 \<or> 90000 \<le> v"
  shows "excel_serial_to_date (Num v) = Num v"
  using assms by (auto simp add: excel_serial_to_date_def serial_try_def)

theorem excel_serial_out_of_range_witness:
  "excel_serial_to_date (Num 1000) = Num 1000
   \<and> excel_serial_to_date (Num 90000) = Num 90000
   \<and> excel_serial_to_date (Num (-3)) = Num (-3)"
  using excel_serial_out_of_range [of 1000] excel_serial_out_of_range [of 90000]
    excel_serial_out_of_range [of "-3"]
  by simp

text \<open>
  Claim C7. Applied to the missing value NaN, \<open>excel_serial_to_date\<close> returns
  \<^verbatim>\<open>None\<close>: neither a date nor its input.
\<close>

theorem excel_serial_nan:
  "excel_serial_to_date NaN = NoneV"
  by (simp add: excel_serial_to_date_def)

section \<open>Properties of the date normalisation\<close>

lemma map_of_setitem: "map_of (setitem df c s) = (map_of df)(c \<mapsto> s)"
  by (induction df c s rule: setitem.induct) (auto simp: fun_eq_iff)

lemma has_column_setitem: "has_column (setitem df c s) k = (k = c \<or> has_column df k)"
  by (induction df c s rule: setitem.induct) (auto simp: has_column_def)

lemma has_column_map_of: "has_column df c = (map_of df c \<noteq> None)"
  by (simp add: has_column_def map_of_eq_None_iff)

lemma map_of_rename_drop:
  "a \<noteq> b \<Longrightarrow> map_of (rename (filter (\<lambda>kv. fst kv \<noteq> b) df) a b) b = map_of df a"
  by (induction df) (auto simp: rename_def)

lemma map_of_rename_drop_other:
  "c \<noteq> a \<Longrightarrow> c \<noteq> b \<Longrightarrow>
   map_of (rename (filter (\<lambda>kv. fst kv \<noteq> b) df) a b) c = map_of df c"
  by (induction df) (auto simp: rename_def)

lemma map_of_rename_drop_source:
  "a \<noteq> b \<Longrightarrow> map_of (rename (filter (\<lambda>kv. fst kv \<noteq> b) df) a b) a = None"
  by (induction df) (auto simp: rename_def)

lemma map_of_map_snd:
  "map_of (map (\<lambda>kv. (fst kv, f (snd kv))) df) k = map_option f (map_of df k)"
  by (induction df) auto

lemma filter_mask_map: "filter_mask (map P xs) xs = filter P xs"
  by (induction xs) (auto simp: filter_mask_def)

lemma coerce_cases: "is_timestamp (coerce r) \<or> coerce r = NaT"
  by (cases r) (auto simp: timestamp_or_nat_def)

lemma notna_coerce: "(\<not> isna (coerce r)) = is_timestamp (coerce r)"
  using coerce_cases [of r] by (cases "coerce r") auto

lemma to_datetime_coerce_cells:
  "to_datetime_coerce p s = Inr d \<Longrightarrow> d = map coerce (map (read_cell (p s)) s)"
  by (auto simp: to_datetime_coerce_def Let_def split: if_splits)

lemma filter_notna_cast:
  assumes "to_datetime_coerce p s = Inr d"
  shows "filter (\<lambda>x. \<not> isna x) d = filter is_timestamp d"
  unfolding to_datetime_coerce_cells [OF assms]
  by (simp add: filter_map o_def notna_coerce)

text \<open>
  With a date column, the normalisation raises what the cast of line 57 raises, and
  otherwise returns the frame of the kept rows: no other step fails.
\<close>

lemma normalize_dates_present:
  assumes "map_of df DATE_COLUMN = Some s"
  shows "normalize_dates p df =
     (case to_datetime_coerce p (map excel_serial_to_date s) of
        Inl e \<Rightarrow> Inl e
      | Inr d \<Rightarrow> Inr (normalized_frame df (map excel_serial_to_date s) d))"
proof -
  have neq: "''Corrected_Date'' \<noteq> DATE_COLUMN" by (simp add: DATE_COLUMN_def)
  have h: "has_column df DATE_COLUMN" using assms by (simp add: has_column_map_of)
  have g: "getitem df DATE_COLUMN = Inr s" using assms by (simp add: getitem_def)
  let ?conv = "map excel_serial_to_date s"
  let ?df1 = "setitem df ''Corrected_Date'' ?conv"
  have h1: "has_column ?df1 DATE_COLUMN" using h by (simp add: has_column_setitem)
  let ?df3 = "rename (filter (\<lambda>kv. fst kv \<noteq> DATE_COLUMN) ?df1) ''Corrected_Date'' DATE_COLUMN"
  have m3: "map_of ?df3 DATE_COLUMN = Some ?conv"
    using map_of_rename_drop [OF neq, of ?df1] by (simp add: map_of_setitem)
  have g3: "getitem ?df3 DATE_COLUMN = Inr ?conv" using m3 by (simp add: getitem_def)
  show ?thesis
    by (simp add: normalize_dates_def h g drop_column_def h1 g3 dropna_def map_of_setitem
        keep_mask_def normalized_frame_def split: sum.splits)
qed

lemma normalize_dates_absent:
  "map_of df DATE_COLUMN = None \<Longrightarrow> normalize_dates p df = Inr df"
  by (simp add: normalize_dates_def has_column_map_of)

lemma normalize_dates_returned:
  assumes "map_of df DATE_COLUMN = Some s" and "normalize_dates p df = Inr df'"
  shows "\<exists>d. to_datetime_coerce p (map excel_serial_to_date s) = Inr d
           \<and> df' = normalized_frame df (map excel_serial_to_date s) d"
  using assms(2) unfolding normalize_dates_present [OF assms(1)]
  by (auto split: sum.splits)

lemma map_of_normalized_frame_date:
  "map_of (normalized_frame df conv d) DATE_COLUMN = Some (filter (\<lambda>x. \<not> isna x) d)"
  by (simp add: normalized_frame_def map_of_map_snd map_of_setitem keep_mask_def
      filter_mask_map)

lemma has_column_normalized_frame:
  "has_column (normalized_frame df conv d) c =
     (c = DATE_COLUMN \<or> (c \<noteq> ''Corrected_Date'' \<and> has_column df c))"
proof -
  have neq: "''Corrected_Date'' \<noteq> DATE_COLUMN" by (simp add: DATE_COLUMN_def)
  consider "c = DATE_COLUMN" | "c = ''Corrected_Date''"
    | "c \<noteq> DATE_COLUMN" "c \<noteq> ''Corrected_Date''"
    by blast
  then show ?thesis
  proof cases
    case 1
    then show ?thesis
      by (simp add: has_column_map_of normalized_frame_def map_of_map_snd map_of_setitem)
  next
    case 2
    then show ?thesis
      using neq
      by (simp add: has_column_map_of normalized_frame_def map_of_map_snd map_of_setitem
          map_of_rename_drop_source)
  next
    case 3
    then show ?thesis
      by (simp add: has_column_map_of normalized_frame_def map_of_map_snd map_of_setitem
          map_of_rename_drop_other)
  qed
qed

lemma normalize_dates_keeps_column:
  assumes "normalize_dates p df = Inr df'" and "c \<noteq> ''Corrected_Date''"
  shows "has_column df' c = has_column df c"
proof (cases "map_of df DATE_COLUMN")
  case None
  then show ?thesis using assms by (simp add: normalize_dates_absent)
next
  case (Some s)
  then have "has_column df DATE_COLUMN" by (simp add: has_column_map_of)
  moreover obtain d where "df' = normalized_frame df (map excel_serial_to_date s) d"
    using normalize_dates_returned [OF Some assms(1)] by blast
  ultimately show ?thesis
    using assms(2) by (auto simp: has_column_normalized_frame)
qed

text \<open>
  When no cell of the date column is read with a time zone, the normalisation returns a
  frame, and its date column holds representable naive timestamps only: the cells that
  the cast did not turn into NaT, in their order.
\<close>

lemma naive_cells:
  assumes "\<not> list_ex is_aware rs"
  shows "\<exists>ts. filter is_timestamp (map coerce rs) = map Ts ts \<and> list_all in_bounds ts"
  using assms
proof (induction rs)
  case Nil
  then show ?case by simp
next
  case (Cons r rs)
  then obtain ts where ts: "filter is_timestamp (map coerce rs) = map Ts ts"
    and b: "list_all in_bounds ts" by auto
  show ?case
  proof (cases r)
    case Unreadable
    then show ?thesis using ts b by auto
  next
    case (Naive t)
    show ?thesis
    proof (cases "in_bounds t")
      case True
      then have "filter is_timestamp (map coerce (r # rs)) = map Ts (t # ts)
          \<and> list_all in_bounds (t # ts)"
        using Naive ts b by (simp add: timestamp_or_nat_def)
      then show ?thesis by (rule exI)
    next
      case False
      then show ?thesis using Naive ts b by (auto simp: timestamp_or_nat_def)
    qed
  next
    case (Aware t off)
    then show ?thesis using Cons.prems by simp
  qed
qed

lemma normalize_dates_without_offsets:
  assumes "map_of df DATE_COLUMN = Some s"
    and "\<not> list_ex is_aware
          (map (read_cell (p (map excel_serial_to_date s))) (map excel_serial_to_date s))"
  shows "\<exists>df' ts. normalize_dates p df = Inr df' \<and> map_of df' DATE_COLUMN = Some (map Ts ts)
           \<and> list_all in_bounds ts"
proof -
  let ?conv = "map excel_serial_to_date s"
  let ?rs = "map (read_cell (p ?conv)) ?conv"
  have c: "to_datetime_coerce p ?conv = Inr (map coerce ?rs)"
    using assms(2) by (simp add: to_datetime_coerce_def)
  have n: "normalize_dates p df = Inr (normalized_frame df ?conv (map coerce ?rs))"
    by (simp add: normalize_dates_present [OF assms(1)] c)
  obtain ts where ts: "filter is_timestamp (map coerce ?rs) = map Ts ts"
    and b: "list_all in_bounds ts"
    using naive_cells [OF assms(2)] by blast
  have "filter (\<lambda>x. \<not> isna x) (map coerce ?rs) = map Ts ts"
    using filter_notna_cast [OF c] ts by (simp only:)
  then have "map_of (normalized_frame df ?conv (map coerce ?rs)) DATE_COLUMN = Some (map Ts ts)"
    by (simp only: map_of_normalized_frame_date)
  then show ?thesis using n b by blast
qed

text \<open>
  Claim C2. The normalisation is never to raise: a date that cannot be read is to drop
  its row. On a date column that holds a serial number and then a text with a UTC
  offset it raises: the serial number becomes a naive timestamp, the text is read with
  its time zone, and the cast of line 57 raises ValueError in spite of
  \<^verbatim>\<open>errors='coerce'\<close>.
\<close>

theorem cast_raises_on_mixed_time_zones:
  "normalize_dates offset_reader sheet_serial_then_offset = Inl ValueError"
  by (simp add: normalize_dates_def sheet_serial_then_offset_def has_column_def getitem_def
      DATE_COLUMN_def drop_column_def rename_def to_datetime_coerce_def
      format_from_text_def excel_serial_to_date_def serial_try_def)

text \<open>
  When no column of the sheet is called \<^verbatim>\<open>Corrected_Date\<close>, every column but the date
  column comes back with the cells of the kept rows, in their order.
\<close>

lemma normalize_dates_frame:
  assumes "map_of df DATE_COLUMN = Some s"
    and "\<not> has_column df ''Corrected_Date''"
    and "c \<noteq> DATE_COLUMN"
    and "normalize_dates p df = Inr df'"
  shows "\<exists>d. to_datetime_coerce p (map excel_serial_to_date s) = Inr d
           \<and> map_of df' c = map_option (filter_mask (keep_mask d)) (map_of df c)"
proof -
  have neq: "''Corrected_Date'' \<noteq> DATE_COLUMN" by (simp add: DATE_COLUMN_def)
  obtain d where d: "to_datetime_coerce p (map excel_serial_to_date s) = Inr d"
    and f: "df' = normalized_frame df (map excel_serial_to_date s) d"
    using normalize_dates_returned [OF assms(1,4)] by blast
  have "map_of df' c = map_option (filter_mask (keep_mask d)) (map_of df c)"
  proof (cases "c = ''Corrected_Date''")
    case True
    have "map_of df c = None" using assms(2) True by (simp add: has_column_map_of)
    then show ?thesis
      using neq True
      by (simp add: f normalized_frame_def map_of_map_snd map_of_setitem
          map_of_rename_drop_source)
  next
    case False
    then show ?thesis
      using assms(3)
      by (simp add: f normalized_frame_def map_of_map_snd map_of_setitem
          map_of_rename_drop_other)
  qed
  then show ?thesis using d by blast
qed

text \<open>
  Claim C10. The normalisation is to change the date field only. On a sheet that has a
  column called \<^verbatim>\<open>Corrected_Date\<close> it does not: line 50 overwrites that column with
  the converted dates and line 54 renames it, so the column and its cells are gone from
  the result.
\<close>

theorem helper_column_overwritten:
  "normalize_dates nanoseconds_only sheet_with_helper_name = Inr [(''Order_Date'', [Ts 16191])]"
  by (simp add: normalize_dates_def sheet_with_helper_name_def has_column_def getitem_def
      DATE_COLUMN_def drop_column_def rename_def dropna_def to_datetime_coerce_def
      excel_serial_to_date_def serial_try_def excel_epoch_def days_from_civil_def
      timestamp_or_nat_def in_bounds_def ns_per_day_def filter_mask_def)

section \<open>Properties of the run\<close>

text \<open>
  When the normalisation returns and the sheet has no amount column, the run shows the
  preview of the raw rows, reports that the column was not found, and shows no metric
  and no chart.
\<close>

lemma missing_amount_column_reported:
  assumes "\<not> has_column df SALES_COLUMN" and "normalize_dates p df = Inr df'"
  shows "run p srt df =
     [Success, Subheader, DataframeView (head df)]
     @ (if has_column df DATE_COLUMN then [Info] else [])
     @ [Header, ColumnNotFound SALES_COLUMN]"
proof -
  have "\<not> has_column df' SALES_COLUMN"
    using assms normalize_dates_keeps_column [OF assms(2), of SALES_COLUMN]
    by (simp add: SALES_COLUMN_def)
  then show ?thesis by (simp add: run_def assms(2) kpis_def)
qed

text \<open>
  Claim C8. Without the amount column the run is to report that the column was not
  found, and not to be aborted. On a sheet without that column whose date column holds
  a serial number and then a text with a UTC offset, the cast of line 57 raises before
  line 68 is reached: the run ends with the message of line 120 and the missing column
  is not reported.
\<close>

theorem missing_amount_run_aborted:
  "run offset_reader stable_sort_desc sheet_serial_then_offset_no_amount =
     [Success, Subheader, DataframeView sheet_serial_then_offset_no_amount, Info,
      ProcessingError ValueError]"
proof -
  have n: "normalize_dates offset_reader sheet_serial_then_offset_no_amount = Inl ValueError"
    by (simp add: normalize_dates_def sheet_serial_then_offset_no_amount_def has_column_def
        getitem_def DATE_COLUMN_def drop_column_def rename_def to_datetime_coerce_def
        format_from_text_def excel_serial_to_date_def serial_try_def)
  have h: "head sheet_serial_then_offset_no_amount = sheet_serial_then_offset_no_amount"
    by (simp add: head_def sheet_serial_then_offset_no_amount_def)
  have d: "has_column sheet_serial_then_offset_no_amount DATE_COLUMN"
    by (simp add: has_column_def sheet_serial_then_offset_no_amount_def DATE_COLUMN_def)
  show ?thesis by (simp add: run_def n h d)
qed

section \<open>Properties of the aggregates\<close>

lemma numeric_values_length: "numeric_values a = Inr vs \<Longrightarrow> length vs = length a"
  by (induction a arbitrary: vs) (auto split: sum.splits)

subsection \<open>Sums that are exact\<close>

lemma whole_Ints: "whole x = (x \<in> \<int>)"
  by (auto simp: whole_def Ints_def)

lemma whole_add: "whole x \<Longrightarrow> whole y \<Longrightarrow> whole (x + y)"
  by (simp add: whole_Ints)

lemma wrap64_exact:
  assumes "whole x" and "\<bar>x\<bar> < 2 ^ 63"
  shows "wrap64 x = x"
proof -
  obtain n :: int where n: "x = of_int n"
    using assms(1) by (auto simp: whole_Ints elim: Ints_cases)
  have "\<bar>of_int n :: rat\<bar> < of_int (2 ^ 63)" using assms(2) n by simp
  then have "\<bar>n\<bar> < 2 ^ 63" by (simp only: of_int_abs [symmetric] of_int_less_iff)
  then have "(n + 2 ^ 63) mod 2 ^ 64 = n + 2 ^ 63" by simp
  then show ?thesis by (simp add: wrap64_def n)
qed

lemma whole_sum_skipna:
  "list_all (\<lambda>v. whole (value_or_zero v)) vs \<Longrightarrow> whole (sum_skipna vs)"
  by (induction vs) (auto simp: sum_skipna_def whole_add, simp add: whole_def)

lemma abs_sum_skipna: "\<bar>sum_skipna vs\<bar> \<le> sum_list (map (\<lambda>v. \<bar>value_or_zero v\<bar>) vs)"
  by (induction vs) (auto simp: sum_skipna_def)

lemma add_up_exact:
  assumes "list_all (\<lambda>v. whole (value_or_zero v)) vs"
    and "sum_list (map (\<lambda>v. \<bar>value_or_zero v\<bar>) vs) < 2 ^ 53"
  shows "add_up int64 vs = sum_skipna vs"
proof -
  have "\<bar>sum_skipna vs\<bar> < 2 ^ 53" using abs_sum_skipna [of vs] assms(2) by simp
  then have "\<bar>sum_skipna vs\<bar> < 2 ^ 63" by simp
  then show ?thesis
    using wrap64_exact [OF whole_sum_skipna [OF assms(1)]] by (simp add: add_up_def)
qed

lemma selected_whole:
  "list_all (\<lambda>v. whole (value_or_zero v)) vs \<Longrightarrow>
   list_all (\<lambda>v. whole (value_or_zero v)) (map snd (filter P (zip c vs)))"
  by (auto simp: list_all_iff dest: set_zip_rightD)

lemma abs_total_nonneg: "0 \<le> sum_list (map (\<lambda>v. \<bar>value_or_zero v\<bar>) vs)"
  by (induction vs) auto

lemma selected_abs:
  "sum_list (map (\<lambda>v. \<bar>value_or_zero v\<bar>) (map snd (filter P (zip c vs))))
     \<le> sum_list (map (\<lambda>v. \<bar>value_or_zero v\<bar>) vs)"
proof (induction vs arbitrary: c)
  case Nil
  then show ?case by simp
next
  case (Cons v vs)
  show ?case
  proof (cases c)
    case Nil
    then show ?thesis using abs_total_nonneg [of vs] by simp
  next
    case (Cons k c')
    then show ?thesis using Cons.IH [of c'] by auto
  qed
qed

lemma add_up_selected:
  assumes "exactly_summable vs"
  shows "add_up int64 (map snd (filter P (zip c vs))) = sum_skipna (map snd (filter P (zip c vs)))"
proof (rule add_up_exact)
  show "list_all (\<lambda>v. whole (value_or_zero v)) (map snd (filter P (zip c vs)))"
    using assms by (simp add: exactly_summable_def selected_whole)
  show "sum_list (map (\<lambda>v. \<bar>value_or_zero v\<bar>) (map snd (filter P (zip c vs)))) < 2 ^ 53"
    using assms selected_abs [of P c vs] by (simp add: exactly_summable_def)
qed

lemma add_up_all: "exactly_summable vs \<Longrightarrow> add_up int64 vs = sum_skipna vs"
  by (rule add_up_exact) (simp_all add: exactly_summable_def)

subsection \<open>Totals by category\<close>

lemma sum_list_permuted:
  assumes "mset ys = mset xs"
  shows "sum_list (map snd ys) = (sum_list (map snd xs) :: rat)"
proof -
  have "sum_mset (image_mset snd (mset ys)) = sum_mset (image_mset snd (mset xs))"
    using assms by simp
  then show ?thesis by (simp only: mset_map [symmetric] sum_mset_sum_list)
qed

lemma sum_list_indicator_absent:
  "x \<notin> set ks \<Longrightarrow> sum_list (map (\<lambda>k. if x = k then (v::rat) else 0) ks) = 0"
  by (induction ks) auto

lemma sum_list_indicator:
  assumes "distinct ks" and "x \<in> set ks"
  shows "sum_list (map (\<lambda>k. if x = k then (v::rat) else 0) ks) = v"
  using assms by (induction ks) (auto simp: sum_list_indicator_absent)

lemma sum_of_category_amounts:
  assumes "distinct ks" and "fst ` set rows \<subseteq> set ks"
  shows "sum_list (map (amount_in_category rows) ks) = sum_skipna (map snd rows)"
  using assms(2)
proof (induction rows)
  case Nil
  then show ?case by (simp add: amount_in_category_def sum_skipna_def)
next
  case (Cons r rows)
  have mem: "fst r \<in> set ks" using Cons.prems by simp
  have eq: "map (amount_in_category (r # rows)) ks =
        map (\<lambda>k. (if fst r = k then value_or_zero (snd r) else 0)
          + amount_in_category rows k) ks"
    by (simp add: amount_in_category_def sum_skipna_def)
  have "sum_list (map (amount_in_category (r # rows)) ks) =
        sum_list (map (\<lambda>k. (if fst r = k then value_or_zero (snd r) else 0)
          + amount_in_category rows k) ks)"
    by (simp only: eq)
  also have "\<dots> = sum_list (map (\<lambda>k. if fst r = k then value_or_zero (snd r) else 0) ks)
        + sum_list (map (amount_in_category rows) ks)"
    by (rule sum_list_addf)
  also have "\<dots> = value_or_zero (snd r) + sum_skipna (map snd rows)"
    using Cons sum_list_indicator [OF assms(1) mem] by simp
  finally show ?case by (simp add: sum_skipna_def)
qed

lemma group_keys_set:
  "group_keys c = Inr ks \<Longrightarrow> distinct ks \<and> set ks = {k \<in> set c. \<not> isna k}"
  by (auto simp: group_keys_def Let_def split: if_splits)

lemma is_number_present: "is_number x \<Longrightarrow> \<not> isna x"
  by (cases x) auto

lemma is_date_present: "is_date x \<Longrightarrow> \<not> isna x"
  by (cases x) auto

lemma group_keys_returned:
  assumes "\<not> (list_ex is_number c \<and> list_ex is_date c)"
  shows "\<exists>ks. group_keys c = Inr ks"
  using assms by (auto simp: group_keys_def Let_def list_ex_iff)

lemma sorts_descending_stable: "sorts_descending stable_sort_desc"
proof -
  have "sorted (map (\<lambda>r. - snd r) (sort_key (\<lambda>r. - snd r) xs))" for xs :: "(cell \<times> rat) list"
    by (rule sorted_sort_key)
  then have "descending (sort_key (\<lambda>r. - snd r) xs)" for xs :: "(cell \<times> rat) list"
    by (simp add: descending_def sorted_map)
  then show ?thesis by (simp add: sorts_descending_def stable_sort_desc_def)
qed

lemma groupby_sum_numeric:
  assumes "map_of df CATEGORY_COLUMN = Some c" and "map_of df SALES_COLUMN = Some a"
    and "numeric_values a = Inr vs" and "group_keys c = Inr ks"
  shows "groupby_sum df =
     Inr (map (\<lambda>k. (k, group_total (int64_column vs) (zip c vs) k)) ks)"
  using assms by (simp add: groupby_sum_def getitem_def)

lemma group_total_exact:
  "exactly_summable vs \<Longrightarrow> group_total int64 (zip c vs) k = amount_in_category (zip c vs) k"
  by (simp add: group_total_def amount_in_category_def add_up_selected)

text \<open>
  Claim C4, as amended. For every dataset with the category and the amount column, of
  one length, in which no row's category is missing, the categories do not hold numbers
  and dates together, and the amounts are whole numbers that add up exactly, the
  per-category totals that \<open>category_sales\<close> returns add up to \<open>total_sales\<close>.
\<close>

theorem category_totals_sum:
  assumes "sorts_descending srt"
    and "map_of df CATEGORY_COLUMN = Some c" and "map_of df SALES_COLUMN = Some a"
    and "length c = length a"
    and "list_all (\<lambda>x. \<not> isna x) c"
    and "\<not> (list_ex is_number c \<and> list_ex is_date c)"
    and "numeric_values a = Inr vs" and "exactly_summable vs"
  shows "\<exists>cs. category_sales srt df = Inr cs \<and> total_sales df = Inr (sum_list (map snd cs))"
proof -
  obtain ks where ks: "group_keys c = Inr ks"
    using group_keys_returned [OF assms(6)] by blast
  have dist: "distinct ks" and set_ks: "set ks = {k \<in> set c. \<not> isna k}"
    using group_keys_set [OF ks] by simp_all
  let ?g = "map (\<lambda>k. (k, group_total (int64_column vs) (zip c vs) k)) ks"
  have len: "length vs = length c" using numeric_values_length [OF assms(7)] assms(4) by simp
  have cs: "category_sales srt df = Inr (srt ?g)"
    by (simp add: category_sales_def groupby_sum_numeric [OF assms(2,3,7) ks])
  have "mset (srt ?g) = mset ?g" using assms(1) by (simp add: sorts_descending_def)
  then have "sum_list (map snd (srt ?g)) = sum_list (map snd ?g)" by (rule sum_list_permuted)
  also have "\<dots> = sum_list (map (amount_in_category (zip c vs)) ks)"
    by (simp add: o_def group_total_exact [OF assms(8)])
  also have "\<dots> = sum_skipna (map snd (zip c vs))"
  proof (rule sum_of_category_amounts [OF dist])
    have "fst ` set (zip c vs) \<subseteq> set c" by (auto dest: set_zip_leftD)
    also have "\<dots> \<subseteq> set ks"
      using assms(5) by (auto simp: set_ks list_all_iff)
    finally show "fst ` set (zip c vs) \<subseteq> set ks" .
  qed
  also have "\<dots> = sum_skipna vs" using len by simp
  finally have "sum_list (map snd (srt ?g)) = sum_skipna vs" .
  moreover have "total_sales df = Inr (sum_skipna vs)"
    using assms(3,7)
    by (simp add: total_sales_def getitem_def series_sum_def add_up_all [OF assms(8)])
  ultimately show ?thesis using cs by simp
qed

theorem category_totals_sum_witness:
  "category_sales stable_sort_desc sales_sheet = Inr [(Str ''B'', 200), (Str ''A'', 150)]
   \<and> total_sales sales_sheet = Inr 350"
proof -
  have c: "map_of sales_sheet CATEGORY_COLUMN = Some [Str ''A'', Str ''B'', Str ''A'']"
    by (simp add: sales_sheet_def CATEGORY_COLUMN_def)
  have a: "map_of sales_sheet SALES_COLUMN = Some [Num 100, Num 200, Num 50]"
    by (simp add: sales_sheet_def SALES_COLUMN_def)
  have v: "numeric_values [Num 100, Num 200, Num 50] = Inr [Some 100, Some 200, Some 50]"
    by simp
  have e: "exactly_summable [Some 100, Some 200, Some 50]"
    by (simp add: exactly_summable_def whole_def)
  have k: "group_keys [Str ''A'', Str ''B'', Str ''A''] = Inr [Str ''A'', Str ''B'']"
    by (simp add: group_keys_def)
  have g: "category_sales stable_sort_desc sales_sheet = Inr [(Str ''B'', 200), (Str ''A'', 150)]"
    by (simp add: category_sales_def groupby_sum_numeric [OF c a v k] group_total_def
        add_up_def int64_column_def whole_def wrap64_def sum_skipna_def stable_sort_desc_def)
  show ?thesis
    using category_totals_sum [OF sorts_descending_stable c a _ _ _ v e] g by simp
qed

text \<open>
  As first stated, for every dataset, the equality fails. With the amounts 5 and 7 and
  the first row's category missing, the total is 12 and the category totals add up to 7.
  With two amounts of \<open>2 ^ 62\<close> the total wraps around to \<open>- 2 ^ 63\<close>, while the two
  category totals are \<open>2 ^ 62\<close> each. With a number and a date as categories there are
  no category totals: \<^verbatim>\<open>groupby\<close> raises.
\<close>

theorem category_totals_sum_counterexample:
  "total_sales sheet_missing_category = Inr 12
   \<and> category_sales stable_sort_desc sheet_missing_category = Inr [(Str ''x'', 7)]
   \<and> total_sales sheet_large_amounts = Inr (- 9223372036854775808)
   \<and> category_sales stable_sort_desc sheet_large_amounts =
       Inr [(Str ''A'', 4611686018427387904), (Str ''B'', 4611686018427387904)]
   \<and> total_sales sheet_number_and_date_keys = Inr 12
   \<and> category_sales stable_sort_desc sheet_number_and_date_keys = Inl TypeError"
  by (simp add: total_sales_def category_sales_def groupby_sum_def
      getitem_def sheet_missing_category_def sheet_large_amounts_def
      sheet_number_and_date_keys_def SALES_COLUMN_def CATEGORY_COLUMN_def
      series_sum_def sum_skipna_def add_up_def int64_column_def whole_def wrap64_def
      group_keys_def group_total_def stable_sort_desc_def)

text \<open>
  Whatever the sorting routine, \<open>category_sales\<close> returns one pair for each category that
  occurs, with the total of that category's rows.
\<close>

lemma mset_map_cong: "mset ys = mset xs \<Longrightarrow> mset (map f ys) = mset (map f xs)"
  by simp

lemma category_sales_pairs:
  assumes "sorts_descending srt"
    and "map_of df CATEGORY_COLUMN = Some c" and "map_of df SALES_COLUMN = Some a"
    and "numeric_values a = Inr vs" and "group_keys c = Inr ks"
  shows "\<exists>cs. category_sales srt df = Inr cs \<and> descending cs
           \<and> distinct (map fst cs) \<and> set (map fst cs) = {k \<in> set c. \<not> isna k}
           \<and> list_all (\<lambda>r. snd r = group_total (int64_column vs) (zip c vs) (fst r)) cs"
proof -
  let ?g = "map (\<lambda>k. (k, group_total (int64_column vs) (zip c vs) k)) ks"
  have cs: "category_sales srt df = Inr (srt ?g)"
    by (simp add: category_sales_def groupby_sum_numeric [OF assms(2,3,4,5)])
  have m: "mset (srt ?g) = mset ?g" and d: "descending (srt ?g)"
    using assms(1) by (simp_all add: sorts_descending_def)
  have "mset (map fst (srt ?g)) = mset (map fst ?g)"
    using m by (rule mset_map_cong)
  also have "map fst ?g = ks" by (simp add: o_def)
  finally have k: "mset (map fst (srt ?g)) = mset ks" .
  have dist: "distinct (map fst (srt ?g))"
    using mset_eq_imp_distinct_iff [OF k] group_keys_set [OF assms(5)] by simp
  have keys: "set (map fst (srt ?g)) = {k \<in> set c. \<not> isna k}"
    using mset_eq_setD [OF k] group_keys_set [OF assms(5)] by simp
  have "set (srt ?g) = set ?g" using m by (rule mset_eq_setD)
  then have tot:
    "list_all (\<lambda>r. snd r = group_total (int64_column vs) (zip c vs) (fst r)) (srt ?g)"
    by (auto simp: list_all_iff)
  show ?thesis using cs d dist keys tot by blast
qed

subsection \<open>Monthly trend\<close>







subsection \<open>A dataset with no rows\<close>

lemma empty_dataset_column:
  "empty_dataset df \<Longrightarrow> map_of df c = Some s \<Longrightarrow> s = []"
  by (induction df) (auto simp: empty_dataset_def split: if_splits)

lemma empty_dataset_getitem:
  "empty_dataset df \<Longrightarrow> has_column df c \<Longrightarrow> getitem df c = Inr []"
  by (auto simp: getitem_def has_column_map_of dest: empty_dataset_column)

lemma empty_dataset_setitem: "empty_dataset df \<Longrightarrow> empty_dataset (setitem df c [])"
  by (induction df c "[] :: cell list" rule: setitem.induct) (auto simp: empty_dataset_def)

lemma empty_dataset_filter: "empty_dataset df \<Longrightarrow> empty_dataset (filter P df)"
  by (simp add: empty_dataset_def list_all_iff)

lemma empty_dataset_rename: "empty_dataset df \<Longrightarrow> empty_dataset (rename df a b)"
  by (simp add: empty_dataset_def list_all_iff rename_def)

lemma empty_dataset_mask:
  "empty_dataset df \<Longrightarrow> empty_dataset (map (\<lambda>kv. (fst kv, filter_mask k (snd kv))) df)"
  by (simp add: empty_dataset_def list_all_iff filter_mask_def)

lemma empty_dataset_head: "empty_dataset df \<Longrightarrow> head df = df"
  by (induction df) (auto simp: empty_dataset_def head_def)

lemma empty_dataset_nrows: "empty_dataset df \<Longrightarrow> nrows df = 0"
  by (cases df) (auto simp: empty_dataset_def nrows_def)

lemma cast_of_no_cells: "to_datetime_coerce p [] = Inr []"
  by (simp add: to_datetime_coerce_def)

lemma empty_dataset_normalized:
  assumes "empty_dataset df"
  shows "\<exists>df'. normalize_dates p df = Inr df' \<and> empty_dataset df'"
proof (cases "map_of df DATE_COLUMN")
  case None
  then show ?thesis using assms by (simp add: normalize_dates_absent)
next
  case (Some s)
  have s: "s = []" using empty_dataset_column [OF assms Some] .
  have "empty_dataset (setitem (rename (filter (\<lambda>kv. fst kv \<noteq> DATE_COLUMN)
          (setitem df ''Corrected_Date'' [])) ''Corrected_Date'' DATE_COLUMN) DATE_COLUMN [])"
    by (intro empty_dataset_setitem empty_dataset_rename empty_dataset_filter assms)
  then have "empty_dataset (normalized_frame df [] [])"
    unfolding normalized_frame_def by (rule empty_dataset_mask)
  then show ?thesis
    by (simp add: normalize_dates_present [OF Some] s cast_of_no_cells)
qed

lemma sorts_descending_Nil: "sorts_descending srt \<Longrightarrow> srt [] = []"
proof -
  assume "sorts_descending srt"
  then have "mset (srt []) = mset []" unfolding sorts_descending_def by blast
  then show ?thesis by simp
qed

text \<open>
  Claim C9, as amended. For a dataset with no rows that has the amount column, the run
  shows the total 0, the average NaN (written \<open>None\<close>; the mean of no values, not zero)
  and the count 0; the monthly trend and the category totals are empty, the charts are
  drawn from no data, and no exception ends the run.
\<close>

theorem empty_dataset_run:
  assumes "empty_dataset df" and "has_column df SALES_COLUMN" and "sorts_descending srt"
  shows "run p srt df =
     [Success, Subheader, DataframeView df]
     @ (if has_column df DATE_COLUMN then [Info] else [])
     @ [Header, MetricTotal 0, MetricAverage None, MetricCount 0]
     @ (if has_column df DATE_COLUMN then [LineChart []] else [])
     @ (if has_column df CATEGORY_COLUMN then [BarChart [], PieChart []] else [])"
proof -
  obtain df' where n: "normalize_dates p df = Inr df'" and e: "empty_dataset df'"
    using empty_dataset_normalized [OF assms(1)] by blast
  have hs: "has_column df' SALES_COLUMN"
    using normalize_dates_keeps_column [OF n, of SALES_COLUMN] assms(2)
    by (simp add: SALES_COLUMN_def)
  have hd: "has_column df' DATE_COLUMN = has_column df DATE_COLUMN"
    using normalize_dates_keeps_column [OF n, of DATE_COLUMN] by (simp add: DATE_COLUMN_def)
  have hc: "has_column df' CATEGORY_COLUMN = has_column df CATEGORY_COLUMN"
    using normalize_dates_keeps_column [OF n, of CATEGORY_COLUMN]
    by (simp add: CATEGORY_COLUMN_def)
  have gs: "getitem df' SALES_COLUMN = Inr []" using empty_dataset_getitem [OF e hs] .
  have tot: "total_sales df' = Inr 0"
    by (simp add: total_sales_def gs series_sum_def add_up_def int64_column_def sum_skipna_def)
  have avg: "avg_sales df' = Inr None"
    by (simp add: avg_sales_def gs series_mean_def mean_skipna_def)
  have cat: "category_charts srt df' =
      (if has_column df CATEGORY_COLUMN then [BarChart [], PieChart []] else [])"
  proof (cases "has_column df CATEGORY_COLUMN")
    case True
    then have "getitem df' CATEGORY_COLUMN = Inr []"
      using empty_dataset_getitem [OF e] hc by simp
    then show ?thesis
      using True hc sorts_descending_Nil [OF assms(3)]
      by (simp add: category_charts_def category_sales_def groupby_sum_def gs group_keys_def)
  next
    case False
    then show ?thesis using hc by (simp add: category_charts_def)
  qed
  have ch: "charts srt df' =
      (if has_column df DATE_COLUMN then [LineChart []] else [])
      @ (if has_column df CATEGORY_COLUMN then [BarChart [], PieChart []] else [])"
  proof (cases "has_column df DATE_COLUMN")
    case True
    then have "getitem df' DATE_COLUMN = Inr []"
      using empty_dataset_getitem [OF e] hd by simp
    then show ?thesis
      using True hd
      by (simp add: charts_def sales_trend_def gs timestamps_def resample_month_sum_def cat)
  next
    case False
    then show ?thesis using hd by (simp add: charts_def cat)
  qed
  show ?thesis
    by (simp add: run_def n kpis_def hs tot avg ch empty_dataset_nrows [OF e]
        empty_dataset_head [OF assms(1)])
qed

theorem empty_dataset_run_witness:
  "run nanoseconds_only stable_sort_desc empty_sheet =
     [Success, Subheader, DataframeView empty_sheet, Info, Header,
      MetricTotal 0, MetricAverage None, MetricCount 0,
      LineChart [], BarChart [], PieChart []]"
proof -
  have e: "empty_dataset empty_sheet" by (simp add: empty_dataset_def empty_sheet_def)
  have s: "has_column empty_sheet SALES_COLUMN"
    by (simp add: has_column_def empty_sheet_def SALES_COLUMN_def)
  have d: "has_column empty_sheet DATE_COLUMN"
    by (simp add: has_column_def empty_sheet_def DATE_COLUMN_def)
  have c: "has_column empty_sheet CATEGORY_COLUMN"
    by (simp add: has_column_def empty_sheet_def CATEGORY_COLUMN_def)
  show ?thesis
    using empty_dataset_run [OF e s sorts_descending_stable, of nanoseconds_only]
    by (simp add: d c)
qed

text \<open>
  As first stated, every aggregate of a dataset with no rows is zero or empty. The
  average is not: it is NaN.
\<close>

theorem empty_dataset_average_counterexample:
  "avg_sales empty_sheet = Inr None
   \<and> total_sales empty_sheet = Inr 0
   \<and> kpis stable_sort_desc empty_sheet =
       [MetricTotal 0, MetricAverage None, MetricCount 0, LineChart [], BarChart [], PieChart []]"
  by (simp add: avg_sales_def total_sales_def kpis_def charts_def category_charts_def
      has_column_def getitem_def empty_sheet_def SALES_COLUMN_def DATE_COLUMN_def
      CATEGORY_COLUMN_def series_mean_def series_sum_def mean_skipna_def sum_skipna_def
      add_up_def int64_column_def nrows_def sales_trend_def timestamps_def
      resample_month_sum_def category_sales_def groupby_sum_def group_keys_def
      stable_sort_desc_def)

section \<open>Complete runs\<close>

text \<open>
  A sheet without the amount column, the date of its second row unreadable: the preview,
  the date notice, the header and the report of the missing column.
\<close>

lemma run_sheet_without_amount:
  "run nanoseconds_only stable_sort_desc sheet_without_amount =
     [Success, Subheader, DataframeView sheet_without_amount, Info, Header,
      ColumnNotFound ''Sales_Amount'']"
proof -
  have a: "\<not> has_column sheet_without_amount SALES_COLUMN"
    by (simp add: has_column_def sheet_without_amount_def SALES_COLUMN_def)
  have b: "has_column sheet_without_amount DATE_COLUMN"
    by (simp add: has_column_def sheet_without_amount_def DATE_COLUMN_def)
  have c: "head sheet_without_amount = sheet_without_amount"
    by (simp add: head_def sheet_without_amount_def)
  have n: "normalize_dates nanoseconds_only sheet_without_amount =
      Inr [(''Product_Category'', [Str ''A'']), (''Order_Date'', [Ts 16191])]"
    by (simp add: normalize_dates_def sheet_without_amount_def has_column_def getitem_def
        DATE_COLUMN_def drop_column_def rename_def dropna_def to_datetime_coerce_def
        excel_serial_to_date_def serial_try_def excel_epoch_def days_from_civil_def
        timestamp_or_nat_def in_bounds_def ns_per_day_def filter_mask_def)
  show ?thesis
    using missing_amount_column_reported [OF a n, of stable_sort_desc]
    by (simp add: b c SALES_COLUMN_def)
qed

lemma month_of_16191: "month_of 16191 = 24172"
  unfolding month_of_def date_of_def civil_from_days_def Let_def by simp

lemma month_of_16222: "month_of 16222 = 24173"
  unfolding month_of_def date_of_def civil_from_days_def Let_def by simp

text \<open>
  A sheet of three rows, the date of the third unreadable: the row is dropped, and the
  page shows the total 300, the average 150, two transactions, the months 2014-05 and
  2014-06 with 100 and 200, and the categories B (200) before A (100).
\<close>

lemma run_sales_sheet:
  "run nanoseconds_only stable_sort_desc sales_sheet =
     [Success, Subheader, DataframeView sales_sheet, Info, Header,
      MetricTotal 300, MetricAverage (Some 150), MetricCount 2,
      LineChart [(24172, 100), (24173, 200)],
      BarChart [(Str ''B'', 200), (Str ''A'', 100)],
      PieChart [(Str ''B'', 200), (Str ''A'', 100)]]"
proof -
  have n: "normalize_dates nanoseconds_only sales_sheet =
     Inr [(''Sales_Amount'', [Num 100, Num 200]),
          (''Product_Category'', [Str ''A'', Str ''B'']),
          (''Order_Date'', [Ts 16191, Ts 16222])]"
    by (simp add: normalize_dates_def sales_sheet_def has_column_def getitem_def
      DATE_COLUMN_def drop_column_def rename_def dropna_def to_datetime_coerce_def
      excel_serial_to_date_def serial_try_def excel_epoch_def days_from_civil_def
      timestamp_or_nat_def in_bounds_def ns_per_day_def filter_mask_def)
  have h: "head sales_sheet = sales_sheet" by (simp add: head_def sales_sheet_def)
  have d: "has_column sales_sheet DATE_COLUMN"
    by (simp add: has_column_def sales_sheet_def DATE_COLUMN_def)
  have k: "kpis stable_sort_desc
     [(''Sales_Amount'', [Num 100, Num 200]),
      (''Product_Category'', [Str ''A'', Str ''B'']),
      (''Order_Date'', [Ts 16191, Ts 16222])] =
     [MetricTotal 300, MetricAverage (Some 150), MetricCount 2,
      LineChart [(24172, 100), (24173, 200)],
      BarChart [(Str ''B'', 200), (Str ''A'', 100)],
      PieChart [(Str ''B'', 200), (Str ''A'', 100)]]"
    by (simp add: kpis_def charts_def category_charts_def has_column_def
        SALES_COLUMN_def DATE_COLUMN_def CATEGORY_COLUMN_def total_sales_def avg_sales_def
        getitem_def series_sum_def series_mean_def sum_skipna_def mean_skipna_def nrows_def
        add_up_def int64_column_def whole_def wrap64_def timestamps_def in_bounds_def
        ns_per_day_def sales_trend_def resample_month_sum_def month_total_def
        month_of_16191 month_of_16222
        upto.simps category_sales_def groupby_sum_def group_keys_def group_total_def
        stable_sort_desc_def)
  show ?thesis by (simp add: run_def n h d k)
qed


end
